theory Spec2Isabelle
  imports Complex_Main "HOL-Library.AList"
begin

section \<open>Results of Python calls\<close>

text \<open>
  A call either raises or returns. The exceptions that the modelled code can meet are the
  constructors of \<open>error\<close>; a call returns \<open>Inl e\<close> when it raises \<open>e\<close> and
  \<open>Inr v\<close> when it returns \<open>v\<close>.
\<close>

datatype error =
  TypeError | ValueError | AttributeError | KeyError | IndexError | OSError | ArrowInvalid

text \<open>
  A list comprehension \<^verbatim>\<open>[f(x) for x in xs]\<close> whose body may raise: the elements are
  visited from left to right and the first exception ends the comprehension.
\<close>

fun comprehension :: "('a \<Rightarrow> error + 'b) \<Rightarrow> 'a list \<Rightarrow> error + 'b list" where
  "comprehension f [] = Inr []"
| "comprehension f (x # xs) =
     (case f x of
        Inl e \<Rightarrow> Inl e
      | Inr y \<Rightarrow> (case comprehension f xs of Inl e \<Rightarrow> Inl e | Inr ys \<Rightarrow> Inr (y # ys)))"


section \<open>bbox.py: the class Bbox\<close>

text \<open>
  The three private attributes \<^verbatim>\<open>_coords\<close>, \<^verbatim>\<open>_format\<close> and \<^verbatim>\<open>_is_normalized\<close>. The
  element type of the coordinate list is left open: no method of the class looks at a
  coordinate, they only hand the whole list to the helpers of
  \<^verbatim>\<open>pixano.transforms.boxes\<close>.
\<close>

record 'a Bbox =
  p_coords :: "'a list"
  p_format :: string
  p_is_normalized :: bool

text \<open>
  \<^verbatim>\<open>__init__(self, xyxy, format, is_normalized=True)\<close>: three assignments and nothing
  else. The optional argument is \<open>None\<close> when the caller leaves it out.
\<close>

definition Bbox_init :: "'a list \<Rightarrow> string \<Rightarrow> bool option \<Rightarrow> error + 'a Bbox" where
  "Bbox_init xyxy fmt is_normalized =
     Inr \<lparr>p_coords = xyxy, p_format = fmt,
          p_is_normalized = (case is_normalized of None \<Rightarrow> True | Some n \<Rightarrow> n)\<rparr>"

definition from_xyxy :: "'a list \<Rightarrow> error + 'a Bbox" where
  "from_xyxy xyxy = Bbox_init xyxy ''xyxy'' None"

definition from_xywh :: "'a list \<Rightarrow> error + 'a Bbox" where
  "from_xywh xywh = Bbox_init xywh ''xywh'' None"

definition is_normalized :: "'a Bbox \<Rightarrow> bool" where
  "is_normalized self = p_is_normalized self"

definition format :: "'a Bbox \<Rightarrow> string" where
  "format self = p_format self"

text \<open>
  The module imports \<^verbatim>\<open>xywh_to_xyxy\<close>, \<^verbatim>\<open>xyxy_to_xywh\<close> and \<^verbatim>\<open>normalize\<close> from
  \<^verbatim>\<open>pixano.transforms.boxes\<close>, which is not among the sources. Every method below takes
  the helper it calls as its first argument, so that what is proved of a method holds
  whatever the helper computes, and whether it returns or raises.

  \<open>to_xyxy\<close> and \<open>to_xywh\<close> assign nothing: they return a list and leave the receiver
  as it is.
\<close>

definition to_xyxy :: "('a list \<Rightarrow> error + 'a list) \<Rightarrow> 'a Bbox \<Rightarrow> error + 'a list" where
  "to_xyxy conv self =
     (if p_format self = ''xywh'' then conv (p_coords self) else Inr (p_coords self))"

definition to_xywh :: "('a list \<Rightarrow> error + 'a list) \<Rightarrow> 'a Bbox \<Rightarrow> error + 'a list" where
  "to_xywh conv self =
     (if p_format self = ''xyxy'' then conv (p_coords self) else Inr (p_coords self))"

text \<open>
  \<open>format_xyxy\<close>, \<open>format_xywh\<close> and \<open>normalize\<close> return nothing and assign to the
  attributes of the receiver. The model returns the receiver as it is after the call.
  When the helper raises, the assignment has not happened and the exception leaves the
  method: the result is \<open>Inl\<close> and the receiver is the one that was passed in.
\<close>

definition format_xyxy :: "('a list \<Rightarrow> error + 'a list) \<Rightarrow> 'a Bbox \<Rightarrow> error + 'a Bbox" where
  "format_xyxy conv self =
     (if p_format self = ''xywh''
      then (case conv (p_coords self) of
              Inl e \<Rightarrow> Inl e
            | Inr c \<Rightarrow> Inr (self\<lparr>p_coords := c, p_format := ''xyxy''\<rparr>))
      else Inr self)"

definition format_xywh :: "('a list \<Rightarrow> error + 'a list) \<Rightarrow> 'a Bbox \<Rightarrow> error + 'a Bbox" where
  "format_xywh conv self =
     (if p_format self = ''xyxy''
      then (case conv (p_coords self) of
              Inl e \<Rightarrow> Inl e
            | Inr c \<Rightarrow> Inr (self\<lparr>p_coords := c, p_format := ''xywh''\<rparr>))
      else Inr self)"

definition normalize ::
  "('a list \<Rightarrow> int \<Rightarrow> int \<Rightarrow> error + 'a list) \<Rightarrow> 'a Bbox \<Rightarrow> int \<Rightarrow> int \<Rightarrow> error + 'a Bbox" where
  "normalize nrm self height width =
     (case nrm (p_coords self) height width of
        Inl e \<Rightarrow> Inl e
      | Inr c \<Rightarrow> Inr (self\<lparr>p_coords := c\<rparr>))"

text \<open>Two calls in a row on the same receiver; the second one is not reached when the first raises.\<close>

definition and_then :: "error + 'a \<Rightarrow> ('a \<Rightarrow> error + 'b) \<Rightarrow> error + 'b" where
  "and_then r f = (case r of Inl e \<Rightarrow> Inl e | Inr v \<Rightarrow> f v)"

subsection \<open>The helpers of pixano.transforms.boxes\<close>

text \<open>
  The three helpers are given here for concrete evaluations only, as the helper arguments
  of the methods above. Addition, subtraction and division are those of the element type,
  whatever their laws.
\<close>

text \<open>
  Modelled from the spec: \<^verbatim>\<open>xywh_to_xyxy\<close> of \<^verbatim>\<open>pixano.transforms.boxes\<close> is missing from
  the sources. The spec gives the two conversions as inverses of each other and counts a
  coordinate list that has not four elements as malformed.
\<close>

fun xywh_to_xyxy :: "'a::plus list \<Rightarrow> error + 'a list" where
  "xywh_to_xyxy [x, y, w, h] = Inr [x, y, x + w, y + h]"
| "xywh_to_xyxy _ = Inl ValueError"

text \<open>
  Modelled from the spec: \<^verbatim>\<open>xyxy_to_xywh\<close> of \<^verbatim>\<open>pixano.transforms.boxes\<close> is missing from
  the sources. The spec's example:
  \<^verbatim>\<open>Bbox(xyxy=[0.1,0.2,0.5,0.6], normalized=True).to_xywh() == [0.1,0.2,0.4,0.4]\<close>.
\<close>

fun xyxy_to_xywh :: "'a::minus list \<Rightarrow> error + 'a list" where
  "xyxy_to_xywh [x1, y1, x2, y2] = Inr [x1, y1, x2 - x1, y2 - y1]"
| "xyxy_to_xywh _ = Inl ValueError"

text \<open>
  Modelled from the spec: \<^verbatim>\<open>normalize\<close> of \<^verbatim>\<open>pixano.transforms.boxes\<close> is missing from the
  sources. The spec: it "rescales coordinates by dividing by the given dimensions and
  requires both dimensions to be positive (fails otherwise)".
\<close>

fun boxes_normalize :: "'a::field list \<Rightarrow> int \<Rightarrow> int \<Rightarrow> error + 'a list" where
  "boxes_normalize [x1, y1, x2, y2] height width =
     (if height \<le> 0 \<or> width \<le> 0 then Inl ValueError
      else Inr [x1 / of_int width, y1 / of_int height, x2 / of_int width, y2 / of_int height])"
| "boxes_normalize _ _ _ = Inl ValueError"


section \<open>image.py: the class Image\<close>

text \<open>
  \<^verbatim>\<open>bytes\<close> values and \<^verbatim>\<open>str\<close> values are both lists of characters. An attribute that
  may hold \<^verbatim>\<open>None\<close> is an option. The attributes are \<^verbatim>\<open>_uri\<close>, \<^verbatim>\<open>_bytes\<close>,
  \<^verbatim>\<open>_preview_bytes\<close> and \<^verbatim>\<open>uri_prefix\<close>. The prefix is annotated \<^verbatim>\<open>epath.PathLike\<close>,
  which admits a \<^verbatim>\<open>str\<close> as well as a path object; only a path object has the operator
  \<^verbatim>\<open>/\<close>.
\<close>

datatype prefix = StrPrefix string | PathPrefix string

record Image =
  p_uri :: "string option"
  p_bytes :: "string option"
  p_preview_bytes :: "string option"
  uri_prefix :: "prefix option"

text \<open>
  The constructor stores its four arguments. It takes no file system: nothing is read when
  an image is built.
\<close>

definition Image_init ::
  "string option \<Rightarrow> string option \<Rightarrow> string option \<Rightarrow> prefix option \<Rightarrow> Image" where
  "Image_init uri bytes preview_bytes prefix =
     \<lparr>p_uri = uri, p_bytes = bytes, p_preview_bytes = preview_bytes, uri_prefix = prefix\<rparr>"

text \<open>
  The file system, as far as \<^verbatim>\<open>open(uri, "rb")\<close> followed by \<^verbatim>\<open>read()\<close> sees it: what
  opening and reading a path gives (the content, or the exception), and the list of the
  paths opened so far. A path is the URI alone, or a path object joined with the URI.
\<close>

datatype path = Path string | Join string string

record world =
  files :: "path \<Rightarrow> error + string"
  opened :: "path list"

text \<open>
  The expression \<^verbatim>\<open>self.uri_prefix / self._uri\<close>. A \<^verbatim>\<open>str\<close> has no operator \<^verbatim>\<open>/\<close>: with
  a \<^verbatim>\<open>str\<close> prefix the expression raises \<^verbatim>\<open>TypeError\<close>, whatever the URI (the line is
  marked \<^verbatim>\<open>type: ignore\<close> in the source). A path object joins with a \<^verbatim>\<open>str\<close> and raises
  \<^verbatim>\<open>TypeError\<close> on \<^verbatim>\<open>None\<close>.
\<close>

definition truediv :: "prefix \<Rightarrow> string option \<Rightarrow> error + path" where
  "truediv pre uri =
     (case pre of
        StrPrefix s \<Rightarrow> Inl TypeError
      | PathPrefix p \<Rightarrow> (case uri of None \<Rightarrow> Inl TypeError | Some u \<Rightarrow> Inr (Join p u)))"

text \<open>
  \<^verbatim>\<open>open(self)\<close>. The opened file is represented by what reading it returns. Without a
  prefix the URI itself is opened, and \<^verbatim>\<open>open(None, "rb")\<close> raises \<^verbatim>\<open>TypeError\<close>. When
  the path cannot be formed, nothing is opened.
\<close>

definition Image_open :: "world \<Rightarrow> Image \<Rightarrow> (error + string) \<times> world" where
  "Image_open w self =
     (case (case uri_prefix self of
              Some pre \<Rightarrow> truediv pre (p_uri self)
            | None \<Rightarrow> (case p_uri self of None \<Rightarrow> Inl TypeError | Some u \<Rightarrow> Inr (Path u))) of
        Inl e \<Rightarrow> (Inl e, w)
      | Inr uri \<Rightarrow> (files w uri, w\<lparr>opened := opened w @ [uri]\<rparr>))"

text \<open>The property \<^verbatim>\<open>bytes\<close>.\<close>

definition Image_bytes :: "world \<Rightarrow> Image \<Rightarrow> (error + string option) \<times> world" where
  "Image_bytes w self =
     (case p_bytes self of
        Some b \<Rightarrow> (Inr (Some b), w)
      | None \<Rightarrow>
          (case p_uri self of
             Some u \<Rightarrow>
               (case Image_open w self of
                  (Inl e, w') \<Rightarrow> (Inl e, w')
                | (Inr f, w') \<Rightarrow> (Inr (Some f), w'))
           | None \<Rightarrow> (Inr None, w)))"

text \<open>
  \<^verbatim>\<open>base64.b64encode\<close> of the standard library: three bytes become four characters of the
  alphabet, a last group of one or two bytes is padded with \<open>=\<close>, and an argument that is
  not bytes-like, as \<^verbatim>\<open>None\<close>, raises \<^verbatim>\<open>TypeError\<close>. The result is ASCII, so that its
  \<^verbatim>\<open>decode("utf-8")\<close> is the same characters and cannot fail.
\<close>

definition b64_alphabet :: string where
  "b64_alphabet = ''ABCDEFGHIJKLMNOPQRSTUVWXYZabcdefghijklmnopqrstuvwxyz0123456789+/''"

fun b64_groups :: "nat list \<Rightarrow> string" where
  "b64_groups (a # b # c # rest) =
     b64_alphabet ! (a div 4) # b64_alphabet ! ((a mod 4) * 16 + b div 16)
       # b64_alphabet ! ((b mod 16) * 4 + c div 64) # b64_alphabet ! (c mod 64)
       # b64_groups rest"
| "b64_groups [a, b] =
     [b64_alphabet ! (a div 4), b64_alphabet ! ((a mod 4) * 16 + b div 16),
      b64_alphabet ! ((b mod 16) * 4), CHR ''='']"
| "b64_groups [a] =
     [b64_alphabet ! (a div 4), b64_alphabet ! ((a mod 4) * 16), CHR ''='', CHR ''='']"
| "b64_groups [] = []"

definition b64encode :: "string option \<Rightarrow> error + string" where
  "b64encode s =
     (case s of None \<Rightarrow> Inl TypeError | Some bs \<Rightarrow> Inr (b64_groups (map of_char bs)))"

text \<open>The properties \<^verbatim>\<open>preview_url\<close> and \<^verbatim>\<open>url\<close>.\<close>

definition Image_preview_url :: "Image \<Rightarrow> error + string" where
  "Image_preview_url self =
     (case b64encode (p_preview_bytes self) of
        Inl e \<Rightarrow> Inl e
      | Inr encoded \<Rightarrow> Inr (''data:image;base64,'' @ encoded))"

definition Image_url :: "world \<Rightarrow> Image \<Rightarrow> (error + string) \<times> world" where
  "Image_url w self =
     (case Image_bytes w self of
        (Inl e, w') \<Rightarrow> (Inl e, w')
      | (Inr data, w') \<Rightarrow>
          (case data of
             Some d \<Rightarrow>
               (case b64encode (Some d) of
                  Inl e \<Rightarrow> (Inl e, w')
                | Inr encoded \<Rightarrow> (Inr (''data:image;base64,'' @ encoded), w'))
           | None \<Rightarrow> (Inr '''', w')))"


section \<open>objectAnnotation.py\<close>

subsection \<open>Python values\<close>

text \<open>
  The values that an attribute of an annotation can hold, by value: \<^verbatim>\<open>None\<close>, scalars,
  lists, dictionaries with string keys (in insertion order), and instances of classes,
  given by their class and their \<^verbatim>\<open>__dict__\<close>. The payload of a float is left open. The
  classes are the four that the batch builder names, a direct subclass of a class, and any
  other class. The module imports the classes \<^verbatim>\<open>BBox\<close>, \<^verbatim>\<open>Pose\<close> and \<^verbatim>\<open>CompressedRLE\<close>;
  none of the three is among the sources (\<^verbatim>\<open>bbox.py\<close> defines \<^verbatim>\<open>Bbox\<close>, which has no
  \<^verbatim>\<open>to_dict\<close>), so that their instances are known by their class only.
\<close>

datatype cls = BBox | Pose | CompressedRLE | ObjectAnnotation | Subclass cls | OtherClass

datatype 'f pyval =
    PyNone
  | PyBool bool
  | PyInt int
  | PyFloat 'f
  | PyStr string
  | PyBytes string
  | PyList "'f pyval list"
  | PyDict "(string \<times> 'f pyval) list"
  | PyObject cls "(string \<times> 'f pyval) list"

text \<open>
  \<^verbatim>\<open>getattr(obj, name)\<close> on the \<^verbatim>\<open>__dict__\<close> of an instance. Names that only the class
  defines (methods) are not looked up: the builder asks for names taken from a
  \<^verbatim>\<open>__dict__\<close>.
\<close>

definition getattr :: "(string \<times> 'v) list \<Rightarrow> string \<Rightarrow> error + 'v" where
  "getattr obj name = (case map_of obj name of Some v \<Rightarrow> Inr v | None \<Rightarrow> Inl AttributeError)"

subsection \<open>The class ObjectAnnotation\<close>

text \<open>The parameters of \<^verbatim>\<open>__init__\<close> after \<^verbatim>\<open>self\<close>, in order.\<close>

definition ObjectAnnotation_params :: "string list" where
  "ObjectAnnotation_params =
     [''id'', ''view_id'', ''bbox'', ''bbox_source'', ''bbox_confidence'', ''is_group_of'',
      ''is_difficult'', ''is_truncated'', ''mask'', ''mask_source'', ''area'', ''pose'',
      ''category_id'', ''category_name'', ''identity'']"

text \<open>
  A call binds each parameter to the argument given for it, else to its default; a
  parameter with neither (only \<^verbatim>\<open>id\<close> has no default), or an argument for a name that is
  no parameter, raises \<^verbatim>\<open>TypeError\<close>. The defaults are values computed once, when the
  \<^verbatim>\<open>def\<close> statement runs, and every call receives those same values: the first argument
  of the model. The body assigns each parameter to the attribute of its name, in the
  order of the parameters; the result is the \<^verbatim>\<open>__dict__\<close> of the new instance. The
  constructor does not look at the values, so their type is open: Python values here,
  addresses in the store further down.
\<close>

definition bind_argument ::
  "(string \<times> 'v) list \<Rightarrow> (string \<times> 'v) list \<Rightarrow> string \<Rightarrow> error + (string \<times> 'v)" where
  "bind_argument defaults args name =
     (case map_of args name of
        Some v \<Rightarrow> Inr (name, v)
      | None \<Rightarrow>
          (case map_of defaults name of Some d \<Rightarrow> Inr (name, d) | None \<Rightarrow> Inl TypeError))"

definition ObjectAnnotation_init ::
  "(string \<times> 'v) list \<Rightarrow> (string \<times> 'v) list \<Rightarrow> error + (string \<times> 'v) list" where
  "ObjectAnnotation_init defaults args =
     (if \<not> set (map fst args) \<subseteq> set ObjectAnnotation_params then Inl TypeError
      else comprehension (bind_argument defaults args) ObjectAnnotation_params)"

text \<open>The defaults of the signature, by value: \<^verbatim>\<open>[0] * 4\<close> for \<^verbatim>\<open>bbox\<close>, a dictionary for \<^verbatim>\<open>pose\<close>.\<close>

definition ObjectAnnotation_defaults :: "(string \<times> 'f pyval) list" where
  "ObjectAnnotation_defaults =
     [(''view_id'', PyNone),
      (''bbox'', PyList (replicate 4 (PyInt 0))),
      (''bbox_source'', PyNone),
      (''bbox_confidence'', PyNone),
      (''is_group_of'', PyNone),
      (''is_difficult'', PyNone),
      (''is_truncated'', PyNone),
      (''mask'', PyNone),
      (''mask_source'', PyNone),
      (''area'', PyNone),
      (''pose'', PyDict [(''cam_R_m2c'', PyList (replicate 9 (PyInt 0))),
                         (''cam_t_m2c'', PyList (replicate 3 (PyInt 0)))]),
      (''category_id'', PyNone),
      (''category_name'', PyNone),
      (''identity'', PyNone)]"

subsection \<open>Arrow types, arrays and scalars\<close>

text \<open>
  The extension types that the module names, and the field types of the struct that
  \<^verbatim>\<open>ObjectAnnotationType\<close> declares, in its order.
\<close>

datatype atype = BBoxType | PoseType | CompressedRLEType | ObjectAnnotationType

datatype ftype = PaString | PaFloat32 | PaBool | PaInt32 | Extension atype

definition ObjectAnnotationType_fields :: "(string \<times> ftype) list" where
  "ObjectAnnotationType_fields =
     [(''id'', PaString),
      (''view_id'', PaString),
      (''bbox'', Extension BBoxType),
      (''bbox_source'', PaString),
      (''bbox_confidence'', PaFloat32),
      (''is_group_of'', PaBool),
      (''is_difficult'', PaBool),
      (''is_truncated'', PaBool),
      (''mask'', Extension CompressedRLEType),
      (''mask_source'', PaString),
      (''area'', PaFloat32),
      (''pose'', Extension PoseType),
      (''category_id'', PaInt32),
      (''category_name'', PaString),
      (''identity'', PaString)]"

text \<open>
  A cell of an array is null or holds a value, kept as the Python value it stands for. An
  array is its extension type, when it was built with one, and its cells.
\<close>

datatype 'f cell = Null | Valid "'f pyval"

datatype 'f Array = Array (array_type: "atype option") (cells: "'f cell list")

fun to_cell :: "'f pyval \<Rightarrow> 'f cell" where
  "to_cell PyNone = Null"
| "to_cell v = Valid v"

text \<open>
  \<^verbatim>\<open>pa.array(obj, type=...)\<close> of the pyarrow library, called on a Python sequence or on an
  array. What pyarrow accepts (type inference, conversion of each value) is its own
  affair and is the first argument: it names the exception when pyarrow refuses the
  call. When pyarrow accepts a sequence the array has one cell for each element, null
  where the element is \<^verbatim>\<open>None\<close>; when it accepts an array, the result is that array.
\<close>

datatype 'f pa_obj = Sequence "'f pyval list" | ArrowArray "'f Array"

definition pa_array ::
  "('f pa_obj \<Rightarrow> atype option \<Rightarrow> error option) \<Rightarrow> 'f pa_obj \<Rightarrow> atype option \<Rightarrow> error + 'f Array" where
  "pa_array refuses obj ty =
     (case refuses obj ty of
        Some e \<Rightarrow> Inl e
      | None \<Rightarrow> (case obj of Sequence vs \<Rightarrow> Inr (Array ty (map to_cell vs)) | ArrowArray a \<Rightarrow> Inr a))"

text \<open>\<^verbatim>\<open>as_py()\<close> of a scalar of one of pyarrow's own types: \<^verbatim>\<open>None\<close> for a null cell.\<close>

definition scalar_as_py :: "'f cell \<Rightarrow> 'f pyval" where
  "scalar_as_py c = (case c of Null \<Rightarrow> PyNone | Valid v \<Rightarrow> v)"

text \<open>
  \<^verbatim>\<open>__arrow_ext_scalar_class__\<close> of an extension type names the class of which pyarrow
  makes the scalar of a cell of that type. \<^verbatim>\<open>ObjectAnnotationType\<close> returns
  \<^verbatim>\<open>ObjectAnnotationTypeScalar\<close>, a subclass of \<^verbatim>\<open>pa.ExtensionScalar\<close> (as \<^verbatim>\<open>ImageType\<close>
  returns \<^verbatim>\<open>ImageScalar\<close>). \<^verbatim>\<open>BBoxType\<close>, in \<^verbatim>\<open>bbox.py\<close>, returns \<^verbatim>\<open>Bbox\<close>: the plain
  class of the boxes, which is no scalar class of pyarrow and has no \<^verbatim>\<open>as_py\<close>.
  \<^verbatim>\<open>PoseType\<close> and \<^verbatim>\<open>CompressedRLEType\<close> are not among the sources.
\<close>

datatype scalar_class = ExtensionScalarClass | PlainClass

fun arrow_ext_scalar_class :: "atype \<Rightarrow> scalar_class option" where
  "arrow_ext_scalar_class BBoxType = Some PlainClass"
| "arrow_ext_scalar_class ObjectAnnotationType = Some ExtensionScalarClass"
| "arrow_ext_scalar_class PoseType = None"
| "arrow_ext_scalar_class CompressedRLEType = None"

text \<open>
  \<^verbatim>\<open>self.value[name].as_py()\<close> for one field. For a field of one of pyarrow's own types
  this is \<open>scalar_as_py\<close>. For a field of an extension type, \<^verbatim>\<open>self.value[name]\<close> wraps
  the cell in the scalar class of the type, null or not: with a class that is no scalar
  class pyarrow raises \<^verbatim>\<open>TypeError\<close>. Otherwise \<^verbatim>\<open>as_py()\<close> is the method of that scalar
  class; for the types that are not among the sources it is the first argument, which
  receives the cell as it is.
\<close>

definition field_as_py ::
  "(atype \<Rightarrow> 'f cell \<Rightarrow> error + 'f pyval) \<Rightarrow> ftype \<Rightarrow> 'f cell \<Rightarrow> error + 'f pyval" where
  "field_as_py decode ty c =
     (case ty of
        Extension t \<Rightarrow>
          (case arrow_ext_scalar_class t of Some PlainClass \<Rightarrow> Inl TypeError | _ \<Rightarrow> decode t c)
      | _ \<Rightarrow> Inr (scalar_as_py c))"

text \<open>
  \<^verbatim>\<open>ObjectAnnotationTypeScalar.as_py\<close>. \<^verbatim>\<open>self.value\<close> is the struct of the row, or
  \<^verbatim>\<open>None\<close> when the scalar itself is null, and then \<^verbatim>\<open>self.value["id"]\<close> raises
  \<^verbatim>\<open>TypeError\<close>. The fifteen fields are read by name, in the order of the layout, each
  is decoded, and the values are passed to the constructor by position.
\<close>

definition ObjectAnnotationTypeScalar_as_py ::
  "(string \<times> 'f pyval) list \<Rightarrow> (atype \<Rightarrow> 'f cell \<Rightarrow> error + 'f pyval)
     \<Rightarrow> (string \<times> 'f cell) list option \<Rightarrow> error + (string \<times> 'f pyval) list" where
  "ObjectAnnotationTypeScalar_as_py defaults decode value =
     (case value of
        None \<Rightarrow> Inl TypeError
      | Some row \<Rightarrow>
          (case comprehension
                  (\<lambda>(name, ty). case map_of row name of
                                   None \<Rightarrow> Inl KeyError
                                 | Some c \<Rightarrow> field_as_py decode ty c)
                  ObjectAnnotationType_fields of
             Inl e \<Rightarrow> Inl e
           | Inr vals \<Rightarrow> ObjectAnnotation_init defaults (zip ObjectAnnotation_params vals)))"

subsection \<open>The batch builder\<close>

definition type_mapping :: "(cls \<times> atype) list" where
  "type_mapping =
     [(BBox, BBoxType), (Pose, PoseType), (CompressedRLE, CompressedRLEType),
      (ObjectAnnotation, ObjectAnnotationType)]"

text \<open>
  \<^verbatim>\<open>isinstance\<close> holds of an instance of one of the classes or of a subclass;
  \<^verbatim>\<open>type_mapping[type(v)]\<close> finds the class itself only, and raises \<^verbatim>\<open>KeyError\<close> for a
  subclass.
\<close>

fun is_subclass :: "cls \<Rightarrow> cls \<Rightarrow> bool" where
  "is_subclass (Subclass c) k = (Subclass c = k \<or> is_subclass c k)"
| "is_subclass c k = (c = k)"

fun isinstance :: "'f pyval \<Rightarrow> cls list \<Rightarrow> bool" where
  "isinstance (PyObject c d) ks = list_ex (is_subclass c) ks"
| "isinstance _ ks = False"

fun type_mapping_getitem :: "'f pyval \<Rightarrow> error + atype" where
  "type_mapping_getitem (PyObject c d) =
     (case map_of type_mapping c of Some t \<Rightarrow> Inr t | None \<Rightarrow> Inl KeyError)"
| "type_mapping_getitem _ = Inl KeyError"

text \<open>
  \<^verbatim>\<open>value.to_dict()\<close>. The method of each class is the first argument (the classes are not
  among the sources, and \<^verbatim>\<open>ObjectAnnotation.to_dict\<close> calls theirs). \<^verbatim>\<open>None\<close>, a list, a
  dictionary and the scalars have no such attribute.
\<close>

fun call_to_dict ::
  "(cls \<Rightarrow> (string \<times> 'f pyval) list \<Rightarrow> error + 'f pyval) \<Rightarrow> 'f pyval \<Rightarrow> error + 'f pyval" where
  "call_to_dict to_dict (PyObject c d) = to_dict c d"
| "call_to_dict to_dict _ = Inl AttributeError"

text \<open>The body of the loop over the attributes: the column of one attribute.\<close>

definition column ::
  "('f pa_obj \<Rightarrow> atype option \<Rightarrow> error option)
     \<Rightarrow> (cls \<Rightarrow> (string \<times> 'f pyval) list \<Rightarrow> error + 'f pyval)
     \<Rightarrow> (string \<times> 'f pyval) list list \<Rightarrow> string \<Rightarrow> error + 'f Array" where
  "column refuses to_dict annotation_list attr =
     (case comprehension (\<lambda>annotation. getattr annotation attr) annotation_list of
        Inl e \<Rightarrow> Inl e
      | Inr attr_values \<Rightarrow>
          (case attr_values of
             [] \<Rightarrow> Inl IndexError
           | first # _ \<Rightarrow>
               if isinstance first (map fst type_mapping)
               then (case type_mapping_getitem first of
                       Inl e \<Rightarrow> Inl e
                     | Inr attr_type \<Rightarrow>
                         (case comprehension (call_to_dict to_dict) attr_values of
                            Inl e \<Rightarrow> Inl e
                          | Inr dicts \<Rightarrow>
                              (case pa_array refuses (Sequence dicts) (Some attr_type) of
                                 Inl e \<Rightarrow> Inl e
                               | Inr typed \<Rightarrow> pa_array refuses (ArrowArray typed) None)))
               else pa_array refuses (Sequence attr_values) None))"

fun for_attributes ::
  "('f pa_obj \<Rightarrow> atype option \<Rightarrow> error option)
     \<Rightarrow> (cls \<Rightarrow> (string \<times> 'f pyval) list \<Rightarrow> error + 'f pyval)
     \<Rightarrow> (string \<times> 'f pyval) list list \<Rightarrow> string list
     \<Rightarrow> (string \<times> 'f Array) list \<Rightarrow> error + (string \<times> 'f Array) list" where
  "for_attributes refuses to_dict annotation_list [] result_dict = Inr result_dict"
| "for_attributes refuses to_dict annotation_list (attr # attributes) result_dict =
     (case column refuses to_dict annotation_list attr of
        Inl e \<Rightarrow> Inl e
      | Inr col \<Rightarrow>
          for_attributes refuses to_dict annotation_list attributes
            (AList.update attr col result_dict))"

text \<open>
  \<^verbatim>\<open>ObjectAnnotationArray.from_list_to_dict\<close>. An annotation is its \<^verbatim>\<open>__dict__\<close>; the
  result dictionary is an association list in insertion order. The function first builds
  \<^verbatim>\<open>type_mapping\<close>, which instantiates the four Arrow types; their constructors take no
  argument and are taken to return.
\<close>

definition from_list_to_dict ::
  "('f pa_obj \<Rightarrow> atype option \<Rightarrow> error option)
     \<Rightarrow> (cls \<Rightarrow> (string \<times> 'f pyval) list \<Rightarrow> error + 'f pyval)
     \<Rightarrow> (string \<times> 'f pyval) list list \<Rightarrow> error + (string \<times> 'f Array) list" where
  "from_list_to_dict refuses to_dict annotation_list =
     (case annotation_list of
        [] \<Rightarrow> Inr []
      | first # _ \<Rightarrow> for_attributes refuses to_dict annotation_list (map fst first) [])"

text \<open>Row \<open>i\<close> of a column mapping: cell \<open>i\<close> of each column, under the column's name.\<close>

definition row_at :: "(string \<times> 'f Array) list \<Rightarrow> nat \<Rightarrow> error + (string \<times> 'f cell) list" where
  "row_at cols i =
     comprehension
       (\<lambda>(name, a). if i < length (cells a) then Inr (name, cells a ! i) else Inl IndexError)
       cols"


section \<open>Default arguments as objects\<close>

text \<open>
  To say that two instances hold the same list, and not two equal lists, objects need an
  identity. A store is the list of the objects allocated so far; the address of an object
  is its index; containers and instances hold addresses. A new object goes to the end, so
  that no address is ever reused or moved.
\<close>

type_synonym addr = nat

datatype stored =
    SNone
  | SInt int
  | SStr string
  | SList "addr list"
  | SDict "(string \<times> addr) list"
  | SInstance cls "(string \<times> addr) list"

type_synonym store = "stored list"

definition alloc :: "store \<Rightarrow> stored \<Rightarrow> addr \<times> store" where
  "alloc st ob = (length st, st @ [ob])"

definition deref :: "store \<Rightarrow> addr \<Rightarrow> stored option" where
  "deref st a = (if a < length st then Some (st ! a) else None)"

text \<open>
  The \<^verbatim>\<open>def __init__\<close> statement of the class runs once, when the module is loaded, and
  evaluates the default expressions then, from left to right: \<^verbatim>\<open>[0] * 4\<close> is a new list
  of four references to the integer \<open>0\<close>, the dictionary of \<^verbatim>\<open>pose\<close> is a new dictionary
  of two new lists, and each \<^verbatim>\<open>None\<close> is the one object \<^verbatim>\<open>None\<close>, whose address is the
  second argument. The result is the defaults of the function, as addresses, and the store
  after the allocations.
\<close>

definition ObjectAnnotation_def :: "store \<Rightarrow> addr \<Rightarrow> (string \<times> addr) list \<times> store" where
  "ObjectAnnotation_def st none =
     (let (zero, st) = alloc st (SInt 0);
          (bbox, st) = alloc st (SList (replicate 4 zero));
          (cam_R, st) = alloc st (SList (replicate 9 zero));
          (cam_t, st) = alloc st (SList (replicate 3 zero));
          (pose, st) = alloc st (SDict [(''cam_R_m2c'', cam_R), (''cam_t_m2c'', cam_t)])
      in ([(''view_id'', none),
           (''bbox'', bbox),
           (''bbox_source'', none),
           (''bbox_confidence'', none),
           (''is_group_of'', none),
           (''is_difficult'', none),
           (''is_truncated'', none),
           (''mask'', none),
           (''mask_source'', none),
           (''area'', none),
           (''pose'', pose),
           (''category_id'', none),
           (''category_name'', none),
           (''identity'', none)], st))"

text \<open>
  A call \<^verbatim>\<open>ObjectAnnotation(...)\<close>: \<^verbatim>\<open>__init__\<close> binds the arguments, which are addresses,
  and the new instance is allocated with the attributes that \<^verbatim>\<open>__init__\<close> has set. When
  the binding raises, no instance remains.
\<close>

definition ObjectAnnotation_new ::
  "(string \<times> addr) list \<Rightarrow> store \<Rightarrow> (string \<times> addr) list \<Rightarrow> (error + addr) \<times> store" where
  "ObjectAnnotation_new defaults st args =
     (case ObjectAnnotation_init defaults args of
        Inl e \<Rightarrow> (Inl e, st)
      | Inr d \<Rightarrow> (let (a, st') = alloc st (SInstance ObjectAnnotation d) in (Inr a, st')))"


section \<open>Properties of Bbox\<close>

lemma format_xyxy_result:
  "format_xyxy conv b = Inr b' \<Longrightarrow> p_format b' \<noteq> ''xywh''"
  by (auto simp: format_xyxy_def split: if_splits sum.splits)

lemma format_xywh_result:
  "format_xywh conv b = Inr b' \<Longrightarrow> p_format b' \<noteq> ''xyxy''"
  by (auto simp: format_xywh_def split: if_splits sum.splits)

text \<open>
  C7. Converting to the same format again changes nothing: \<open>format_xyxy\<close> called twice
  leaves the receiver (coordinates, format tag and flag) as one call leaves it, and raises
  exactly when one call raises; the same holds of \<open>format_xywh\<close>; and on a box that
  already has the target format either method leaves every attribute as it was.
\<close>

theorem format_conversion_idempotent:
  "and_then (format_xyxy conv b) (format_xyxy conv) = format_xyxy conv b
   \<and> and_then (format_xywh conv' b) (format_xywh conv') = format_xywh conv' b
   \<and> (p_format b = ''xyxy'' \<longrightarrow> format_xyxy conv b = Inr b)
   \<and> (p_format b = ''xywh'' \<longrightarrow> format_xywh conv' b = Inr b)"
proof (intro conjI impI)
  show "and_then (format_xyxy conv b) (format_xyxy conv) = format_xyxy conv b"
  proof (cases "format_xyxy conv b")
    case (Inl e)
    then show ?thesis by (simp add: and_then_def)
  next
    case (Inr b')
    from format_xyxy_result [OF Inr] have "format_xyxy conv b' = Inr b'"
      by (simp add: format_xyxy_def)
    with Inr show ?thesis by (simp add: and_then_def)
  qed
  show "and_then (format_xywh conv' b) (format_xywh conv') = format_xywh conv' b"
  proof (cases "format_xywh conv' b")
    case (Inl e)
    then show ?thesis by (simp add: and_then_def)
  next
    case (Inr b')
    from format_xywh_result [OF Inr] have "format_xywh conv' b' = Inr b'"
      by (simp add: format_xywh_def)
    with Inr show ?thesis by (simp add: and_then_def)
  qed
next
  assume "p_format b = ''xyxy''"
  then show "format_xyxy conv b = Inr b" by (simp add: format_xyxy_def)
next
  assume "p_format b = ''xywh''"
  then show "format_xywh conv' b = Inr b" by (simp add: format_xywh_def)
qed

theorem format_conversion_idempotent_witness:
  "and_then (format_xyxy xywh_to_xyxy \<lparr>p_coords = [1, 2, 3, 4 :: int], p_format = ''xywh'', p_is_normalized = False\<rparr>)
            (format_xyxy xywh_to_xyxy)
     = Inr \<lparr>p_coords = [1, 2, 4, 6], p_format = ''xyxy'', p_is_normalized = False\<rparr>
   \<and> format_xyxy xywh_to_xyxy \<lparr>p_coords = [1, 2, 4, 6 :: int], p_format = ''xyxy'', p_is_normalized = False\<rparr>
     = Inr \<lparr>p_coords = [1, 2, 4, 6], p_format = ''xyxy'', p_is_normalized = False\<rparr>
   \<and> format_xywh xyxy_to_xywh \<lparr>p_coords = [1, 2, 3, 4 :: int], p_format = ''xywh'', p_is_normalized = False\<rparr>
     = Inr \<lparr>p_coords = [1, 2, 3, 4], p_format = ''xywh'', p_is_normalized = False\<rparr>"
proof -
  let ?b = "\<lparr>p_coords = [1, 2, 3, 4 :: int], p_format = ''xywh'', p_is_normalized = False\<rparr>"
  let ?c = "\<lparr>p_coords = [1, 2, 4, 6 :: int], p_format = ''xyxy'', p_is_normalized = False\<rparr>"
  have one: "format_xyxy xywh_to_xyxy ?b = Inr ?c"
    by (simp add: format_xyxy_def)
  from format_conversion_idempotent [of xywh_to_xyxy ?b xyxy_to_xywh]
  have "and_then (format_xyxy xywh_to_xyxy ?b) (format_xyxy xywh_to_xyxy) = Inr ?c"
    "format_xywh xyxy_to_xywh ?b = Inr ?b"
    using one by simp_all
  moreover from format_conversion_idempotent [of xywh_to_xyxy ?c xyxy_to_xywh]
  have "format_xyxy xywh_to_xyxy ?c = Inr ?c"
    by simp
  ultimately show ?thesis by simp
qed

text \<open>
  C4 as stated fails. A box built from three coordinates and the tag \<open>center\<close> is
  accepted by the constructor, and all four conversions return on it: nothing is checked
  at construction, and a conversion compares the tag with one string only.
\<close>

theorem malformed_bbox_accepted:
  "Bbox_init [1, 2, 3 :: int] ''center'' None
     = Inr \<lparr>p_coords = [1, 2, 3], p_format = ''center'', p_is_normalized = True\<rparr>
   \<and> to_xyxy xywh_to_xyxy \<lparr>p_coords = [1, 2, 3 :: int], p_format = ''center'', p_is_normalized = True\<rparr>
     = Inr [1, 2, 3]
   \<and> to_xywh xyxy_to_xywh \<lparr>p_coords = [1, 2, 3 :: int], p_format = ''center'', p_is_normalized = True\<rparr>
     = Inr [1, 2, 3]
   \<and> format_xyxy xywh_to_xyxy \<lparr>p_coords = [1, 2, 3 :: int], p_format = ''center'', p_is_normalized = True\<rparr>
     = Inr \<lparr>p_coords = [1, 2, 3], p_format = ''center'', p_is_normalized = True\<rparr>
   \<and> format_xywh xyxy_to_xywh \<lparr>p_coords = [1, 2, 3 :: int], p_format = ''center'', p_is_normalized = True\<rparr>
     = Inr \<lparr>p_coords = [1, 2, 3], p_format = ''center'', p_is_normalized = True\<rparr>"
  by (simp add: Bbox_init_def to_xyxy_def to_xywh_def format_xyxy_def format_xywh_def)

text \<open>
  C4, amended. The constructor never fails and stores the coordinate list and the tag it is
  given, unchecked. A conversion towards xyxy on a box whose tag is not \<open>xywh\<close>, and a
  conversion towards xywh on a box whose tag is not \<open>xyxy\<close>, returns (or keeps) the
  stored coordinates without failing, whatever the tag and the number of coordinates. On
  the tag \<open>xywh\<close> (for \<open>to_xyxy\<close>) and \<open>xyxy\<close> (for \<open>to_xywh\<close>) the outcome is
  the helper's: the method fails exactly when the helper does.
\<close>

theorem bbox_no_validation:
  "Bbox_init c f n
     = Inr \<lparr>p_coords = c, p_format = f,
            p_is_normalized = (case n of None \<Rightarrow> True | Some v \<Rightarrow> v)\<rparr>
   \<and> (p_format b \<noteq> ''xywh'' \<longrightarrow> to_xyxy conv b = Inr (p_coords b) \<and> format_xyxy conv b = Inr b)
   \<and> (p_format b \<noteq> ''xyxy'' \<longrightarrow> to_xywh conv' b = Inr (p_coords b) \<and> format_xywh conv' b = Inr b)
   \<and> (p_format b = ''xywh'' \<longrightarrow> to_xyxy conv b = conv (p_coords b))
   \<and> (p_format b = ''xyxy'' \<longrightarrow> to_xywh conv' b = conv' (p_coords b))"
  by (simp add: Bbox_init_def to_xyxy_def to_xywh_def format_xyxy_def format_xywh_def)

theorem bbox_no_validation_witness:
  "Bbox_init [5, 6, 1, 1 :: int] ''xywh'' (Some False)
     = Inr \<lparr>p_coords = [5, 6, 1, 1], p_format = ''xywh'', p_is_normalized = False\<rparr>
   \<and> to_xywh xyxy_to_xywh \<lparr>p_coords = [5, 6, 1, 1 :: int], p_format = ''xywh'', p_is_normalized = False\<rparr>
     = Inr [5, 6, 1, 1]
   \<and> format_xywh xyxy_to_xywh \<lparr>p_coords = [5, 6, 1, 1 :: int], p_format = ''xywh'', p_is_normalized = False\<rparr>
     = Inr \<lparr>p_coords = [5, 6, 1, 1], p_format = ''xywh'', p_is_normalized = False\<rparr>
   \<and> to_xyxy xywh_to_xyxy \<lparr>p_coords = [5, 6, 1, 1 :: int], p_format = ''xywh'', p_is_normalized = False\<rparr>
     = Inr [5, 6, 6, 7]"
  using bbox_no_validation [of "[5, 6, 1, 1 :: int]" "''xywh''" "Some False"
      "\<lparr>p_coords = [5, 6, 1, 1 :: int], p_format = ''xywh'', p_is_normalized = False\<rparr>"
      xywh_to_xyxy xyxy_to_xywh]
  by simp

text \<open>
  C8 as stated fails. \<open>format_xyxy\<close> on a box tagged \<open>xywh\<close> overwrites the
  coordinates and the tag of the receiver: after the call the receiver is another box.
\<close>

theorem format_xyxy_mutates_receiver:
  "format_xyxy xywh_to_xyxy \<lparr>p_coords = [1, 2, 3, 4 :: int], p_format = ''xywh'', p_is_normalized = True\<rparr>
     = Inr \<lparr>p_coords = [1, 2, 4, 6], p_format = ''xyxy'', p_is_normalized = True\<rparr>
   \<and> \<lparr>p_coords = [1, 2, 4, 6 :: int], p_format = ''xyxy'', p_is_normalized = True\<rparr>
     \<noteq> \<lparr>p_coords = [1, 2, 3, 4], p_format = ''xywh'', p_is_normalized = True\<rparr>"
  by (simp add: format_xyxy_def)

text \<open>
  C8, amended. \<open>format_xyxy\<close> and \<open>format_xywh\<close> work in place: when the stored tag
  is the other format they replace the receiver's coordinates by the helper's result and
  its tag by the target format, and otherwise leave the receiver as it is. \<open>normalize\<close>
  replaces the receiver's coordinates by the helper's result and keeps its tag. None of
  the three changes the normalized flag. (\<open>to_xyxy\<close> and \<open>to_xywh\<close> only read the
  receiver, which their types in this model already say.)
\<close>

theorem bbox_in_place_updates:
  "(format_xyxy conv b = Inr bx \<longrightarrow>
      p_is_normalized bx = p_is_normalized b
      \<and> (if p_format b = ''xywh''
         then conv (p_coords b) = Inr (p_coords bx) \<and> p_format bx = ''xyxy''
         else bx = b))
   \<and> (format_xywh conv' b = Inr bw \<longrightarrow>
      p_is_normalized bw = p_is_normalized b
      \<and> (if p_format b = ''xyxy''
         then conv' (p_coords b) = Inr (p_coords bw) \<and> p_format bw = ''xywh''
         else bw = b))
   \<and> (normalize nrm b height width = Inr bn \<longrightarrow>
      nrm (p_coords b) height width = Inr (p_coords bn)
      \<and> p_format bn = p_format b \<and> p_is_normalized bn = p_is_normalized b)"
  by (auto simp: format_xyxy_def format_xywh_def normalize_def split: sum.splits)

theorem bbox_in_place_updates_witness:
  "format_xyxy xywh_to_xyxy \<lparr>p_coords = [2, 4, 6, 8 :: rat], p_format = ''xywh'', p_is_normalized = False\<rparr>
     = Inr \<lparr>p_coords = [2, 4, 8, 12], p_format = ''xyxy'', p_is_normalized = False\<rparr>
   \<and> format_xywh xyxy_to_xywh \<lparr>p_coords = [2, 4, 6, 8 :: rat], p_format = ''xywh'', p_is_normalized = False\<rparr>
     = Inr \<lparr>p_coords = [2, 4, 6, 8], p_format = ''xywh'', p_is_normalized = False\<rparr>
   \<and> normalize boxes_normalize \<lparr>p_coords = [2, 4, 6, 8 :: rat], p_format = ''xywh'', p_is_normalized = False\<rparr> 4 2
     = Inr \<lparr>p_coords = [1, 1, 3, 2], p_format = ''xywh'', p_is_normalized = False\<rparr>
   \<and> p_is_normalized \<lparr>p_coords = [2, 4, 8, 12 :: rat], p_format = ''xyxy'', p_is_normalized = False\<rparr>
     = p_is_normalized \<lparr>p_coords = [2, 4, 6, 8 :: rat], p_format = ''xywh'', p_is_normalized = False\<rparr>"
proof -
  let ?b = "\<lparr>p_coords = [2, 4, 6, 8 :: rat], p_format = ''xywh'', p_is_normalized = False\<rparr>"
  let ?x = "\<lparr>p_coords = [2, 4, 8, 12 :: rat], p_format = ''xyxy'', p_is_normalized = False\<rparr>"
  let ?n = "\<lparr>p_coords = [1, 1, 3, 2 :: rat], p_format = ''xywh'', p_is_normalized = False\<rparr>"
  have x: "format_xyxy xywh_to_xyxy ?b = Inr ?x"
    by (simp add: format_xyxy_def)
  have w: "format_xywh xyxy_to_xywh ?b = Inr ?b"
    by (simp add: format_xywh_def)
  have n: "normalize boxes_normalize ?b 4 2 = Inr ?n"
    by (simp add: normalize_def)
  from bbox_in_place_updates [of xywh_to_xyxy ?b ?x xyxy_to_xywh ?b boxes_normalize 4 2 ?n] x w n
  show ?thesis by simp
qed


section \<open>Properties of Image\<close>



text \<open>
  C9. When the preview bytes are \<^verbatim>\<open>None\<close>, the preview URL accessor raises: it hands
  \<^verbatim>\<open>None\<close> to \<^verbatim>\<open>b64encode\<close>, which raises \<^verbatim>\<open>TypeError\<close>; it returns neither an empty
  string nor \<^verbatim>\<open>None\<close>. The URL accessor of the full image, on an image with no content
  (no bytes and no URI), returns the empty string.
\<close>

theorem preview_url_raises_without_preview:
  "(p_preview_bytes img = None \<longrightarrow> Image_preview_url img = Inl TypeError)
   \<and> (p_bytes img = None \<and> p_uri img = None \<longrightarrow> Image_url w img = (Inr '''', w))"
  by (simp add: Image_preview_url_def b64encode_def Image_url_def Image_bytes_def)

theorem preview_url_raises_without_preview_witness:
  "Image_preview_url (Image_init None None None None) = Inl TypeError
   \<and> Image_url \<lparr>files = (\<lambda>p. Inl OSError), opened = []\<rparr> (Image_init None None None None)
     = (Inr '''', \<lparr>files = (\<lambda>p. Inl OSError), opened = []\<rparr>)
   \<and> Image_preview_url (Image_init None None (Some ''hi'') None) = Inr ''data:image;base64,aGk=''"
proof -
  have "Image_preview_url (Image_init None None (Some ''hi'') None) = Inr ''data:image;base64,aGk=''"
    by (simp add: Image_preview_url_def Image_init_def b64encode_def b64_alphabet_def)
  with preview_url_raises_without_preview
         [of "Image_init None None None None" "\<lparr>files = (\<lambda>p. Inl OSError), opened = []\<rparr>"]
  show ?thesis by (simp add: Image_init_def)
qed


section \<open>Properties of the batch builder and of decoding\<close>

subsection \<open>Comprehensions, arrays and the loop over the attributes\<close>

lemma comprehension_length:
  "comprehension f xs = Inr ys \<Longrightarrow> length ys = length xs"
  by (induction xs arbitrary: ys) (auto split: sum.splits)

lemma comprehension_nth:
  "comprehension f xs = Inr ys \<Longrightarrow> i < length xs \<Longrightarrow> f (xs ! i) = Inr (ys ! i)"
proof (induction xs arbitrary: ys i)
  case Nil
  then show ?case by simp
next
  case (Cons x xs)
  then show ?case by (cases i) (auto split: sum.splits)
qed

lemma comprehension_fails:
  "x \<in> set xs \<Longrightarrow> isl (f x) \<Longrightarrow> isl (comprehension f xs)"
  by (induction xs) (auto split: sum.splits)

lemma pa_array_length:
  "pa_array refuses (Sequence vs) ty = Inr a \<Longrightarrow> length (cells a) = length vs"
  by (auto simp: pa_array_def split: option.splits)

lemma pa_array_again:
  "pa_array refuses (ArrowArray b) ty = Inr a \<Longrightarrow> a = b"
  by (auto simp: pa_array_def split: option.splits)

lemma column_length:
  assumes "column refuses to_dict anns attr = Inr col"
  shows "length (cells col) = length anns"
proof -
  from assms obtain vals where vals: "comprehension (\<lambda>a. getattr a attr) anns = Inr vals"
    by (auto simp: column_def split: sum.splits)
  then have len: "length vals = length anns" by (rule comprehension_length)
  from assms vals obtain v0 vs where v: "vals = v0 # vs"
    by (cases vals) (auto simp: column_def)
  show ?thesis
  proof (cases "isinstance v0 (map fst type_mapping)")
    case True
    with assms vals v obtain t dicts typed where
      d: "comprehension (call_to_dict to_dict) vals = Inr dicts"
      and t: "pa_array refuses (Sequence dicts) (Some t) = Inr typed"
      and c: "pa_array refuses (ArrowArray typed) None = Inr col"
      by (auto simp: column_def split: sum.splits)
    from c have "col = typed" by (rule pa_array_again)
    with pa_array_length [OF t] comprehension_length [OF d] len show ?thesis by simp
  next
    case False
    with assms vals v have "pa_array refuses (Sequence vals) None = Inr col"
      by (auto simp: column_def)
    from pa_array_length [OF this] len show ?thesis by simp
  qed
qed

lemma update_member:
  "(k', v') \<in> set (AList.update k v al) \<Longrightarrow> (k', v') = (k, v) \<or> (k', v') \<in> set al"
  by (induction al) (auto split: if_splits)

lemma for_attributes_keys:
  "for_attributes r t anns attrs acc = Inr cols \<Longrightarrow> fst ` set cols = set attrs \<union> fst ` set acc"
  by (induction attrs arbitrary: acc) (auto simp: AList.dom_update split: sum.splits)

lemma for_attributes_distinct:
  "for_attributes r t anns attrs acc = Inr cols \<Longrightarrow> distinct (map fst acc) \<Longrightarrow> distinct (map fst cols)"
  by (induction attrs arbitrary: acc) (auto simp: AList.distinct_update split: sum.splits)

lemma for_attributes_lengths:
  "for_attributes r t anns attrs acc = Inr cols \<Longrightarrow>
   (\<And>k a. (k, a) \<in> set acc \<Longrightarrow> length (cells a) = length anns) \<Longrightarrow>
   (k, a) \<in> set cols \<Longrightarrow> length (cells a) = length anns"
proof (induction attrs arbitrary: acc)
  case Nil
  then show ?case by simp
next
  case (Cons attr attrs)
  from Cons.prems(1) obtain col where col: "column r t anns attr = Inr col"
    and rest: "for_attributes r t anns attrs (AList.update attr col acc) = Inr cols"
    by (auto split: sum.splits)
  show ?case
  proof (rule Cons.IH [OF rest _ Cons.prems(3)])
    fix k' a' assume "(k', a') \<in> set (AList.update attr col acc)"
    then have "(k', a') = (attr, col) \<or> (k', a') \<in> set acc" by (rule update_member)
    then show "length (cells a') = length anns"
      using column_length [OF col] Cons.prems(2) by auto
  qed
qed

lemma for_attributes_other:
  "for_attributes r t anns attrs acc = Inr cols \<Longrightarrow> k \<notin> set attrs \<Longrightarrow> map_of cols k = map_of acc k"
  by (induction attrs arbitrary: acc) (auto simp: AList.update_conv' split: sum.splits)

lemma for_attributes_column:
  "for_attributes r t anns attrs acc = Inr cols \<Longrightarrow> k \<in> set attrs \<Longrightarrow>
   \<exists>col. column r t anns k = Inr col \<and> map_of cols k = Some col"
proof (induction attrs arbitrary: acc)
  case Nil
  then show ?case by simp
next
  case (Cons attr attrs)
  from Cons.prems(1) obtain col where col: "column r t anns attr = Inr col"
    and rest: "for_attributes r t anns attrs (AList.update attr col acc) = Inr cols"
    by (auto split: sum.splits)
  show ?case
  proof (cases "k \<in> set attrs")
    case True
    then show ?thesis by (rule Cons.IH [OF rest])
  next
    case False
    with Cons.prems(2) have "k = attr" by simp
    with for_attributes_other [OF rest False] col show ?thesis
      by (simp add: AList.update_conv')
  qed
qed

subsection \<open>The batch builder\<close>

text \<open>
  Whenever the batch builder returns on a non-empty list, it returns exactly one column
  for each attribute name of the first element and no other, each of as many cells as the
  list has elements.
\<close>

lemma batch_shape:
  assumes "from_list_to_dict refuses to_dict (first # rest) = Inr cols"
  shows "distinct (map fst cols)"
    and "set (map fst cols) = set (map fst first)"
    and "(name, col) \<in> set cols \<Longrightarrow> length (cells col) = length (first # rest)"
proof -
  from assms
  have f: "for_attributes refuses to_dict (first # rest) (map fst first) [] = Inr cols"
    by (simp add: from_list_to_dict_def)
  from for_attributes_distinct [OF f] show "distinct (map fst cols)" by simp
  from for_attributes_keys [OF f] show "set (map fst cols) = set (map fst first)" by simp
  show "length (cells col) = length (first # rest)" if "(name, col) \<in> set cols"
    using for_attributes_lengths [OF f _ that] by simp
qed

text \<open>
  A column whose first value is an instance of one of the four classes, and which holds
  further down a value that is no instance of a class (as \<^verbatim>\<open>None\<close>), makes the whole
  batch fail, whatever pyarrow accepts and whatever the \<^verbatim>\<open>to_dict\<close> methods return.
\<close>

lemma for_attributes_fails:
  "k \<in> set attrs \<Longrightarrow> isl (column r t anns k) \<Longrightarrow> isl (for_attributes r t anns attrs acc)"
  by (induction attrs arbitrary: acc) (auto split: sum.splits)

lemma call_to_dict_fails: "(\<forall>c d. v \<noteq> PyObject c d) \<Longrightarrow> isl (call_to_dict to_dict v)"
  by (cases v) auto

lemma column_mixed:
  assumes v0: "map_of first k = Some v0" and inst: "isinstance v0 (map fst type_mapping)"
    and a: "a \<in> set rest" and v: "map_of a k = Some v" and plain: "\<forall>c d. v \<noteq> PyObject c d"
  shows "isl (column refuses to_dict (first # rest) k)"
proof (cases "comprehension (\<lambda>x. getattr x k) (first # rest)")
  case (Inl e)
  then show ?thesis by (simp add: column_def)
next
  case (Inr vals)
  from a obtain i where i: "i < length rest" "rest ! i = a"
    by (auto simp: in_set_conv_nth)
  from comprehension_nth [OF Inr, of 0] v0 have h: "vals ! 0 = v0"
    by (simp add: getattr_def)
  from comprehension_nth [OF Inr, of "Suc i"] i v have "vals ! Suc i = v"
    by (simp add: getattr_def)
  moreover from comprehension_length [OF Inr] i have "Suc i < length vals" by simp
  ultimately have "v \<in> set vals" by (metis nth_mem)
  with call_to_dict_fails [OF plain]
  have f: "isl (comprehension (call_to_dict to_dict) vals)"
    by (rule comprehension_fails [rotated])
  from comprehension_length [OF Inr] h obtain vs where "vals = v0 # vs"
    by (cases vals) auto
  with Inr inst f show ?thesis
    by (auto simp: column_def split: sum.splits)
qed

lemma batch_fails_on_mixed_column:
  assumes "map_of first k = Some v0" and "isinstance v0 (map fst type_mapping)"
    and "a \<in> set rest" and "map_of a k = Some v" and "\<forall>c d. v \<noteq> PyObject c d"
  shows "isl (from_list_to_dict refuses to_dict (first # rest))"
proof -
  from assms(1) have "k \<in> set (map fst first)"
    by (metis map_of_eq_None_iff option.distinct(1) set_map)
  from for_attributes_fails [OF this column_mixed [OF assms]] show ?thesis
    by (simp add: from_list_to_dict_def)
qed

text \<open>
  C6. The empty list is encoded as the empty column mapping: the call returns, whatever
  pyarrow and the \<^verbatim>\<open>to_dict\<close> methods would do.
\<close>

theorem empty_batch: "from_list_to_dict refuses to_dict [] = Inr []"
  by (simp add: from_list_to_dict_def)

text \<open>
  C3. The code does not do what the claim says on a list whose elements share the
  attribute set: two annotations with the same fifteen attribute names, the first with a
  \<^verbatim>\<open>BBox\<close> instance as \<^verbatim>\<open>bbox\<close>, the second with \<^verbatim>\<open>None\<close>, which the attribute admits
  (\<^verbatim>\<open>Optional\<close> in the constructor, \<^verbatim>\<open>nullable=True\<close> in the layout). The first value
  alone sends the whole column through \<^verbatim>\<open>to_dict()\<close>; \<^verbatim>\<open>None.to_dict()\<close> raises
  \<^verbatim>\<open>AttributeError\<close> and no column is produced, although pyarrow refuses nothing here
  and the \<^verbatim>\<open>to_dict\<close> of every class returns (by \<open>batch_fails_on_mixed_column\<close> the batch
  fails for any other behaviour of the two as well). With the same oracle, two annotations
  that both hold the \<^verbatim>\<open>BBox\<close> get a typed \<^verbatim>\<open>bbox\<close> column of two cells, and two that both
  hold \<^verbatim>\<open>None\<close> get a \<^verbatim>\<open>bbox\<close> column of two null cells.
\<close>

theorem batch_fails_on_shared_attributes:
  "ObjectAnnotation_init ObjectAnnotation_defaults
       [(''id'', PyStr ''a''), (''bbox'', PyObject BBox [(''coords'', PyList [PyInt 0, PyInt 0, PyInt 1, PyInt 1]), (''is_normalized'', PyBool True), (''format'', PyStr ''xyxy'')]),
        (''pose'', PyNone)]
     = Inr [(''id'', PyStr ''a''), (''view_id'', PyNone),
         (''bbox'', PyObject BBox [(''coords'', PyList [PyInt 0, PyInt 0, PyInt 1, PyInt 1]), (''is_normalized'', PyBool True), (''format'', PyStr ''xyxy'')]),
         (''bbox_source'', PyNone), (''bbox_confidence'', PyNone), (''is_group_of'', PyNone),
         (''is_difficult'', PyNone), (''is_truncated'', PyNone), (''mask'', PyNone),
         (''mask_source'', PyNone), (''area'', PyNone), (''pose'', PyNone),
         (''category_id'', PyNone), (''category_name'', PyNone),
         (''identity'', PyNone :: rat pyval)]
   \<and> ObjectAnnotation_init ObjectAnnotation_defaults
       [(''id'', PyStr ''b''), (''bbox'', PyNone), (''pose'', PyNone)]
     = Inr [(''id'', PyStr ''b''), (''view_id'', PyNone), (''bbox'', PyNone),
         (''bbox_source'', PyNone), (''bbox_confidence'', PyNone), (''is_group_of'', PyNone),
         (''is_difficult'', PyNone), (''is_truncated'', PyNone), (''mask'', PyNone),
         (''mask_source'', PyNone), (''area'', PyNone), (''pose'', PyNone),
         (''category_id'', PyNone), (''category_name'', PyNone),
         (''identity'', PyNone :: rat pyval)]
   \<and> map fst [(''id'', PyStr ''a''), (''view_id'', PyNone),
         (''bbox'', PyObject BBox [(''coords'', PyList [PyInt 0, PyInt 0, PyInt 1, PyInt 1]), (''is_normalized'', PyBool True), (''format'', PyStr ''xyxy'')]),
         (''bbox_source'', PyNone), (''bbox_confidence'', PyNone), (''is_group_of'', PyNone),
         (''is_difficult'', PyNone), (''is_truncated'', PyNone), (''mask'', PyNone),
         (''mask_source'', PyNone), (''area'', PyNone), (''pose'', PyNone),
         (''category_id'', PyNone), (''category_name'', PyNone),
         (''identity'', PyNone :: rat pyval)]
     = map fst [(''id'', PyStr ''b''), (''view_id'', PyNone), (''bbox'', PyNone),
         (''bbox_source'', PyNone), (''bbox_confidence'', PyNone), (''is_group_of'', PyNone),
         (''is_difficult'', PyNone), (''is_truncated'', PyNone), (''mask'', PyNone),
         (''mask_source'', PyNone), (''area'', PyNone), (''pose'', PyNone),
         (''category_id'', PyNone), (''category_name'', PyNone),
         (''identity'', PyNone :: rat pyval)]
   \<and> from_list_to_dict (\<lambda>obj ty. None) (\<lambda>c d. Inr (PyDict d))
       [[(''id'', PyStr ''a''), (''view_id'', PyNone),
         (''bbox'', PyObject BBox [(''coords'', PyList [PyInt 0, PyInt 0, PyInt 1, PyInt 1]), (''is_normalized'', PyBool True), (''format'', PyStr ''xyxy'')]),
         (''bbox_source'', PyNone), (''bbox_confidence'', PyNone), (''is_group_of'', PyNone),
         (''is_difficult'', PyNone), (''is_truncated'', PyNone), (''mask'', PyNone),
         (''mask_source'', PyNone), (''area'', PyNone), (''pose'', PyNone),
         (''category_id'', PyNone), (''category_name'', PyNone),
         (''identity'', PyNone :: rat pyval)],
        [(''id'', PyStr ''b''), (''view_id'', PyNone), (''bbox'', PyNone),
         (''bbox_source'', PyNone), (''bbox_confidence'', PyNone), (''is_group_of'', PyNone),
         (''is_difficult'', PyNone), (''is_truncated'', PyNone), (''mask'', PyNone),
         (''mask_source'', PyNone), (''area'', PyNone), (''pose'', PyNone),
         (''category_id'', PyNone), (''category_name'', PyNone),
         (''identity'', PyNone :: rat pyval)]]
     = Inl AttributeError
   \<and> map_sum id (\<lambda>cols. map_of cols ''bbox'')
       (from_list_to_dict (\<lambda>obj ty. None) (\<lambda>c d. Inr (PyDict d))
          [[(''id'', PyStr ''a''), (''view_id'', PyNone),
         (''bbox'', PyObject BBox [(''coords'', PyList [PyInt 0, PyInt 0, PyInt 1, PyInt 1]), (''is_normalized'', PyBool True), (''format'', PyStr ''xyxy'')]),
         (''bbox_source'', PyNone), (''bbox_confidence'', PyNone), (''is_group_of'', PyNone),
         (''is_difficult'', PyNone), (''is_truncated'', PyNone), (''mask'', PyNone),
         (''mask_source'', PyNone), (''area'', PyNone), (''pose'', PyNone),
         (''category_id'', PyNone), (''category_name'', PyNone),
         (''identity'', PyNone :: rat pyval)],
           [(''id'', PyStr ''a''), (''view_id'', PyNone),
         (''bbox'', PyObject BBox [(''coords'', PyList [PyInt 0, PyInt 0, PyInt 1, PyInt 1]), (''is_normalized'', PyBool True), (''format'', PyStr ''xyxy'')]),
         (''bbox_source'', PyNone), (''bbox_confidence'', PyNone), (''is_group_of'', PyNone),
         (''is_difficult'', PyNone), (''is_truncated'', PyNone), (''mask'', PyNone),
         (''mask_source'', PyNone), (''area'', PyNone), (''pose'', PyNone),
         (''category_id'', PyNone), (''category_name'', PyNone),
         (''identity'', PyNone :: rat pyval)]])
     = Inr (Some (Array (Some BBoxType)
                   [Valid (PyDict [(''coords'', PyList [PyInt 0, PyInt 0, PyInt 1, PyInt 1]), (''is_normalized'', PyBool True), (''format'', PyStr ''xyxy'')]),
                    Valid (PyDict [(''coords'', PyList [PyInt 0, PyInt 0, PyInt 1, PyInt 1]), (''is_normalized'', PyBool True), (''format'', PyStr ''xyxy'')])]))
   \<and> map_sum id (\<lambda>cols. map_of cols ''bbox'')
       (from_list_to_dict (\<lambda>obj ty. None) (\<lambda>c d. Inr (PyDict d))
          [[(''id'', PyStr ''b''), (''view_id'', PyNone), (''bbox'', PyNone),
         (''bbox_source'', PyNone), (''bbox_confidence'', PyNone), (''is_group_of'', PyNone),
         (''is_difficult'', PyNone), (''is_truncated'', PyNone), (''mask'', PyNone),
         (''mask_source'', PyNone), (''area'', PyNone), (''pose'', PyNone),
         (''category_id'', PyNone), (''category_name'', PyNone),
         (''identity'', PyNone :: rat pyval)],
           [(''id'', PyStr ''b''), (''view_id'', PyNone), (''bbox'', PyNone),
         (''bbox_source'', PyNone), (''bbox_confidence'', PyNone), (''is_group_of'', PyNone),
         (''is_difficult'', PyNone), (''is_truncated'', PyNone), (''mask'', PyNone),
         (''mask_source'', PyNone), (''area'', PyNone), (''pose'', PyNone),
         (''category_id'', PyNone), (''category_name'', PyNone),
         (''identity'', PyNone :: rat pyval)]])
     = Inr (Some (Array None [Null, Null]))"
  by (simp add: ObjectAnnotation_init_def ObjectAnnotation_params_def
      ObjectAnnotation_defaults_def bind_argument_def from_list_to_dict_def column_def
      getattr_def type_mapping_def pa_array_def)


subsection \<open>Decoding a row\<close>

text \<open>An attribute that is \<^verbatim>\<open>None\<close> in a single annotation is encoded as one null cell.\<close>

lemma encode_None:
  assumes r: "from_list_to_dict refuses to_dict [a] = Inr cols"
    and n: "map_of a k = Some PyNone"
  shows "map_of cols k = Some (Array None [Null])"
proof -
  from r have f: "for_attributes refuses to_dict [a] (map fst a) [] = Inr cols"
    by (simp add: from_list_to_dict_def)
  from n have "k \<in> set (map fst a)"
    by (metis map_of_eq_None_iff option.distinct(1) set_map)
  from for_attributes_column [OF f this] obtain col where
    col: "column refuses to_dict [a] k = Inr col" and m: "map_of cols k = Some col"
    by blast
  from col n have "pa_array refuses (Sequence [PyNone]) None = Inr col"
    by (simp add: column_def getattr_def)
  then have "col = Array None [Null]"
    by (auto simp: pa_array_def split: option.splits)
  with m show ?thesis by simp
qed

text \<open>
  Decoding raises on every row: the third field read is \<^verbatim>\<open>bbox\<close>, whose type is
  \<^verbatim>\<open>BBoxType\<close>, and its cell cannot be wrapped in the class \<^verbatim>\<open>Bbox\<close>. This holds for
  any decoder of the two nested types that are not among the sources.
\<close>

lemma as_py_raises: "isl (ObjectAnnotationTypeScalar_as_py defaults decode value)"
proof (cases "value")
  case None
  then show ?thesis by (simp add: ObjectAnnotationTypeScalar_as_py_def)
next
  case (Some row)
  let ?f = "\<lambda>(name, ty). case map_of row name of
                             None \<Rightarrow> Inl KeyError
                           | Some c \<Rightarrow> field_as_py decode ty c"
  have "(''bbox'', Extension BBoxType) \<in> set ObjectAnnotationType_fields"
    by (simp add: ObjectAnnotationType_fields_def)
  moreover have "isl (?f (''bbox'', Extension BBoxType))"
    by (simp add: field_as_py_def split: option.splits)
  ultimately have "isl (comprehension ?f ObjectAnnotationType_fields)"
    by (rule comprehension_fails)
  with Some show ?thesis
    by (auto simp: ObjectAnnotationTypeScalar_as_py_def split: sum.splits)
qed

text \<open>
  C2. The code does not do what the claim says. The annotation with \<^verbatim>\<open>bbox\<close> and
  \<^verbatim>\<open>mask\<close> absent is batch-encoded to a row whose \<^verbatim>\<open>bbox\<close> and \<^verbatim>\<open>mask\<close> cells are null,
  as the claim says; but decoding that row raises \<^verbatim>\<open>TypeError\<close> when it reads
  \<^verbatim>\<open>self.value["bbox"]\<close>, where the claim has it return an object whose \<^verbatim>\<open>bbox\<close> and
  \<^verbatim>\<open>mask\<close> are \<^verbatim>\<open>None\<close>. The decoder given here for the nested types that are not among
  the sources is the one the claim wants (null to \<^verbatim>\<open>None\<close>); by \<open>as_py_raises\<close> no
  other decoder changes the outcome.
\<close>

theorem null_bbox_row_decoding_raises:
  "from_list_to_dict (\<lambda>obj ty. None) (\<lambda>c d. Inr (PyDict d))
       [[(''id'', PyStr ''a''), (''view_id'', PyNone), (''bbox'', PyNone),
         (''bbox_source'', PyNone), (''bbox_confidence'', PyNone), (''is_group_of'', PyNone),
         (''is_difficult'', PyNone), (''is_truncated'', PyNone), (''mask'', PyNone),
         (''mask_source'', PyNone), (''area'', PyNone),
         (''pose'', PyDict [(''cam_R_m2c'', PyList [PyInt 0, PyInt 0, PyInt 0, PyInt 0, PyInt 0, PyInt 0, PyInt 0, PyInt 0, PyInt 0]), (''cam_t_m2c'', PyList [PyInt 0, PyInt 0, PyInt 0])]),
         (''category_id'', PyNone), (''category_name'', PyNone),
         (''identity'', PyNone :: rat pyval)]]
     = Inr [(''id'', Array None [Valid (PyStr ''a'')]), (''view_id'', Array None [Null]),
         (''bbox'', Array None [Null]), (''bbox_source'', Array None [Null]),
         (''bbox_confidence'', Array None [Null]), (''is_group_of'', Array None [Null]),
         (''is_difficult'', Array None [Null]), (''is_truncated'', Array None [Null]),
         (''mask'', Array None [Null]), (''mask_source'', Array None [Null]),
         (''area'', Array None [Null]),
         (''pose'', Array None [Valid (PyDict [(''cam_R_m2c'', PyList [PyInt 0, PyInt 0, PyInt 0, PyInt 0, PyInt 0, PyInt 0, PyInt 0, PyInt 0, PyInt 0]), (''cam_t_m2c'', PyList [PyInt 0, PyInt 0, PyInt 0])])]),
         (''category_id'', Array None [Null]), (''category_name'', Array None [Null]),
         (''identity'', Array None [Null :: rat cell])]
   \<and> row_at [(''id'', Array None [Valid (PyStr ''a'')]), (''view_id'', Array None [Null]),
         (''bbox'', Array None [Null]), (''bbox_source'', Array None [Null]),
         (''bbox_confidence'', Array None [Null]), (''is_group_of'', Array None [Null]),
         (''is_difficult'', Array None [Null]), (''is_truncated'', Array None [Null]),
         (''mask'', Array None [Null]), (''mask_source'', Array None [Null]),
         (''area'', Array None [Null]),
         (''pose'', Array None [Valid (PyDict [(''cam_R_m2c'', PyList [PyInt 0, PyInt 0, PyInt 0, PyInt 0, PyInt 0, PyInt 0, PyInt 0, PyInt 0, PyInt 0]), (''cam_t_m2c'', PyList [PyInt 0, PyInt 0, PyInt 0])])]),
         (''category_id'', Array None [Null]), (''category_name'', Array None [Null]),
         (''identity'', Array None [Null :: rat cell])] 0
     = Inr [(''id'', Valid (PyStr ''a'')), (''view_id'', Null), (''bbox'', Null),
         (''bbox_source'', Null), (''bbox_confidence'', Null), (''is_group_of'', Null),
         (''is_difficult'', Null), (''is_truncated'', Null), (''mask'', Null),
         (''mask_source'', Null), (''area'', Null),
         (''pose'', Valid (PyDict [(''cam_R_m2c'', PyList [PyInt 0, PyInt 0, PyInt 0, PyInt 0, PyInt 0, PyInt 0, PyInt 0, PyInt 0, PyInt 0]), (''cam_t_m2c'', PyList [PyInt 0, PyInt 0, PyInt 0])])),
         (''category_id'', Null), (''category_name'', Null), (''identity'', Null :: rat cell)]
   \<and> ObjectAnnotationTypeScalar_as_py ObjectAnnotation_defaults (\<lambda>t c. Inr (scalar_as_py c))
       (Some [(''id'', Valid (PyStr ''a'')), (''view_id'', Null), (''bbox'', Null),
         (''bbox_source'', Null), (''bbox_confidence'', Null), (''is_group_of'', Null),
         (''is_difficult'', Null), (''is_truncated'', Null), (''mask'', Null),
         (''mask_source'', Null), (''area'', Null),
         (''pose'', Valid (PyDict [(''cam_R_m2c'', PyList [PyInt 0, PyInt 0, PyInt 0, PyInt 0, PyInt 0, PyInt 0, PyInt 0, PyInt 0, PyInt 0]), (''cam_t_m2c'', PyList [PyInt 0, PyInt 0, PyInt 0])])),
         (''category_id'', Null), (''category_name'', Null), (''identity'', Null :: rat cell)])
     = Inl TypeError"
proof -
  let ?a = "[(''id'', PyStr ''a''), (''view_id'', PyNone), (''bbox'', PyNone),
         (''bbox_source'', PyNone), (''bbox_confidence'', PyNone), (''is_group_of'', PyNone),
         (''is_difficult'', PyNone), (''is_truncated'', PyNone), (''mask'', PyNone),
         (''mask_source'', PyNone), (''area'', PyNone),
         (''pose'', PyDict [(''cam_R_m2c'', PyList [PyInt 0, PyInt 0, PyInt 0, PyInt 0, PyInt 0, PyInt 0, PyInt 0, PyInt 0, PyInt 0]), (''cam_t_m2c'', PyList [PyInt 0, PyInt 0, PyInt 0])]),
         (''category_id'', PyNone), (''category_name'', PyNone),
         (''identity'', PyNone :: rat pyval)]"
  let ?cols = "[(''id'', Array None [Valid (PyStr ''a'')]), (''view_id'', Array None [Null]),
         (''bbox'', Array None [Null]), (''bbox_source'', Array None [Null]),
         (''bbox_confidence'', Array None [Null]), (''is_group_of'', Array None [Null]),
         (''is_difficult'', Array None [Null]), (''is_truncated'', Array None [Null]),
         (''mask'', Array None [Null]), (''mask_source'', Array None [Null]),
         (''area'', Array None [Null]),
         (''pose'', Array None [Valid (PyDict [(''cam_R_m2c'', PyList [PyInt 0, PyInt 0, PyInt 0, PyInt 0, PyInt 0, PyInt 0, PyInt 0, PyInt 0, PyInt 0]), (''cam_t_m2c'', PyList [PyInt 0, PyInt 0, PyInt 0])])]),
         (''category_id'', Array None [Null]), (''category_name'', Array None [Null]),
         (''identity'', Array None [Null :: rat cell])]"
  let ?row = "[(''id'', Valid (PyStr ''a'')), (''view_id'', Null), (''bbox'', Null),
         (''bbox_source'', Null), (''bbox_confidence'', Null), (''is_group_of'', Null),
         (''is_difficult'', Null), (''is_truncated'', Null), (''mask'', Null),
         (''mask_source'', Null), (''area'', Null),
         (''pose'', Valid (PyDict [(''cam_R_m2c'', PyList [PyInt 0, PyInt 0, PyInt 0, PyInt 0, PyInt 0, PyInt 0, PyInt 0, PyInt 0, PyInt 0]), (''cam_t_m2c'', PyList [PyInt 0, PyInt 0, PyInt 0])])),
         (''category_id'', Null), (''category_name'', Null), (''identity'', Null :: rat cell)]"
  have enc: "from_list_to_dict (\<lambda>obj ty. None) (\<lambda>c d. Inr (PyDict d)) [?a] = Inr ?cols"
    by (simp add: from_list_to_dict_def column_def getattr_def type_mapping_def pa_array_def)
  have row: "row_at ?cols 0 = Inr ?row"
    by (simp add: row_at_def)
  have dec: "ObjectAnnotationTypeScalar_as_py ObjectAnnotation_defaults (\<lambda>t c. Inr (scalar_as_py c))
               (Some ?row) = Inl TypeError"
    by (simp add: ObjectAnnotationTypeScalar_as_py_def ObjectAnnotationType_fields_def
        field_as_py_def scalar_as_py_def)
  from enc row dec show ?thesis by simp
qed


subsection \<open>Default arguments\<close>

lemma bind_all:
  "comprehension (bind_argument D A) ps = Inr d \<Longrightarrow>
   d = map (\<lambda>n. (n, case map_of A n of Some v \<Rightarrow> v | None \<Rightarrow> the (map_of D n))) ps"
  by (induction ps arbitrary: d) (auto simp: bind_argument_def split: sum.splits option.splits)

lemma init_uses_default:
  assumes i: "ObjectAnnotation_init D A = Inr d"
    and n: "name \<in> set ObjectAnnotation_params" "name \<notin> fst ` set A"
  shows "map_of d name = Some (the (map_of D name))"
proof -
  from i have "comprehension (bind_argument D A) ObjectAnnotation_params = Inr d"
    by (auto simp: ObjectAnnotation_init_def split: if_splits)
  from bind_all [OF this] n(1) have "map_of d name
     = Some (case map_of A name of Some v \<Rightarrow> v | None \<Rightarrow> the (map_of D name))"
    by (simp add: map_of_map_restrict)
  moreover from n(2) have "map_of A name = None"
    by (simp add: map_of_eq_None_iff)
  ultimately show ?thesis by simp
qed

text \<open>
  C10. After the class is defined, take any two constructions that leave out \<^verbatim>\<open>bbox\<close> and
  \<^verbatim>\<open>pose\<close>, and that return. They give two distinct instances. The \<^verbatim>\<open>bbox\<close> attribute
  of either is not absent: it is a list of four references to the integer \<open>0\<close>, not
  \<^verbatim>\<open>None\<close> and not an instance of a class; the \<^verbatim>\<open>pose\<close> attribute is a dictionary with a
  list of nine zeros under \<^verbatim>\<open>cam_R_m2c\<close> and a list of three zeros under \<^verbatim>\<open>cam_t_m2c\<close>.
  And the two instances hold the same list and the same dictionary: one address each, in
  both.
\<close>

theorem default_arguments_shared:
  assumes cls: "ObjectAnnotation_def st none = (defaults, st1)"
    and new1: "ObjectAnnotation_new defaults st1 args1 = (Inr o1, st2)"
    and new2: "ObjectAnnotation_new defaults st2 args2 = (Inr o2, st3)"
    and omit1: "''bbox'' \<notin> fst ` set args1" "''pose'' \<notin> fst ` set args1"
    and omit2: "''bbox'' \<notin> fst ` set args2" "''pose'' \<notin> fst ` set args2"
  shows "\<exists>d1 d2 b p z r t.
           o1 \<noteq> o2
           \<and> deref st3 o1 = Some (SInstance ObjectAnnotation d1)
           \<and> deref st3 o2 = Some (SInstance ObjectAnnotation d2)
           \<and> map_of d1 ''bbox'' = Some b \<and> map_of d2 ''bbox'' = Some b
           \<and> deref st3 b = Some (SList [z, z, z, z]) \<and> deref st3 z = Some (SInt 0)
           \<and> map_of d1 ''pose'' = Some p \<and> map_of d2 ''pose'' = Some p
           \<and> deref st3 p = Some (SDict [(''cam_R_m2c'', r), (''cam_t_m2c'', t)])
           \<and> deref st3 r = Some (SList (replicate 9 z))
           \<and> deref st3 t = Some (SList (replicate 3 z))"
proof -
  let ?n = "length st"
  from cls have st1: "st1 = st @ [SInt 0, SList (replicate 4 ?n), SList (replicate 9 ?n),
      SList (replicate 3 ?n), SDict [(''cam_R_m2c'', ?n + 2), (''cam_t_m2c'', ?n + 3)]]"
    and db: "map_of defaults ''bbox'' = Some (?n + 1)"
    and dp: "map_of defaults ''pose'' = Some (?n + 4)"
    by (auto simp: ObjectAnnotation_def_def alloc_def)
  from new1 obtain d1 where i1: "ObjectAnnotation_init defaults args1 = Inr d1"
    and o1: "o1 = length st1" and st2: "st2 = st1 @ [SInstance ObjectAnnotation d1]"
    by (auto simp: ObjectAnnotation_new_def alloc_def split: sum.splits)
  from new2 obtain d2 where i2: "ObjectAnnotation_init defaults args2 = Inr d2"
    and o2: "o2 = length st2" and st3: "st3 = st2 @ [SInstance ObjectAnnotation d2]"
    by (auto simp: ObjectAnnotation_new_def alloc_def split: sum.splits)
  have bp: "''bbox'' \<in> set ObjectAnnotation_params" "''pose'' \<in> set ObjectAnnotation_params"
    by (simp_all add: ObjectAnnotation_params_def)
  from init_uses_default [OF i1 bp(1) omit1(1)] init_uses_default [OF i1 bp(2) omit1(2)]
    init_uses_default [OF i2 bp(1) omit2(1)] init_uses_default [OF i2 bp(2) omit2(2)] db dp
  have m: "map_of d1 ''bbox'' = Some (?n + 1)" "map_of d2 ''bbox'' = Some (?n + 1)"
    "map_of d1 ''pose'' = Some (?n + 4)" "map_of d2 ''pose'' = Some (?n + 4)"
    by simp_all
  have "o1 \<noteq> o2" using o1 o2 st2 by simp
  moreover have "deref st3 o1 = Some (SInstance ObjectAnnotation d1)"
    "deref st3 o2 = Some (SInstance ObjectAnnotation d2)"
    using o1 o2 st2 st3 by (simp_all add: deref_def nth_append)
  moreover have "deref st3 (?n + 1) = Some (SList [?n, ?n, ?n, ?n])"
    "deref st3 ?n = Some (SInt 0)"
    "deref st3 (?n + 4) = Some (SDict [(''cam_R_m2c'', ?n + 2), (''cam_t_m2c'', ?n + 3)])"
    "deref st3 (?n + 2) = Some (SList (replicate 9 ?n))"
    "deref st3 (?n + 3) = Some (SList (replicate 3 ?n))"
    using st1 st2 st3 by (simp_all add: deref_def nth_append numeral_eq_Suc)
  ultimately show ?thesis using m by blast
qed

theorem default_arguments_shared_witness:
  "ObjectAnnotation_def [SNone,
         SStr ''a''] 0
     = ([(''view_id'', 0), (''bbox'', 3), (''bbox_source'', 0), (''bbox_confidence'', 0),
         (''is_group_of'', 0), (''is_difficult'', 0), (''is_truncated'', 0), (''mask'', 0),
         (''mask_source'', 0), (''area'', 0), (''pose'', 6), (''category_id'', 0),
         (''category_name'', 0), (''identity'', 0)],
        [SNone,
         SStr ''a'',
         SInt 0,
         SList [2, 2, 2, 2],
         SList [2, 2, 2, 2, 2, 2, 2, 2, 2],
         SList [2, 2, 2],
         SDict [(''cam_R_m2c'', 4), (''cam_t_m2c'', 5)]])
   \<and> ObjectAnnotation_new [(''view_id'', 0), (''bbox'', 3), (''bbox_source'', 0), (''bbox_confidence'', 0),
         (''is_group_of'', 0), (''is_difficult'', 0), (''is_truncated'', 0), (''mask'', 0),
         (''mask_source'', 0), (''area'', 0), (''pose'', 6), (''category_id'', 0),
         (''category_name'', 0), (''identity'', 0)]
        [SNone,
         SStr ''a'',
         SInt 0,
         SList [2, 2, 2, 2],
         SList [2, 2, 2, 2, 2, 2, 2, 2, 2],
         SList [2, 2, 2],
         SDict [(''cam_R_m2c'', 4), (''cam_t_m2c'', 5)]]
        [(''id'', 1)]
     = (Inr 7,
        [SNone,
         SStr ''a'',
         SInt 0,
         SList [2, 2, 2, 2],
         SList [2, 2, 2, 2, 2, 2, 2, 2, 2],
         SList [2, 2, 2],
         SDict [(''cam_R_m2c'', 4), (''cam_t_m2c'', 5)],
         SInstance ObjectAnnotation
           [(''id'', 1), (''view_id'', 0), (''bbox'', 3), (''bbox_source'', 0),
            (''bbox_confidence'', 0), (''is_group_of'', 0), (''is_difficult'', 0),
            (''is_truncated'', 0), (''mask'', 0), (''mask_source'', 0), (''area'', 0),
            (''pose'', 6), (''category_id'', 0), (''category_name'', 0), (''identity'', 0)]])
   \<and> ObjectAnnotation_new [(''view_id'', 0), (''bbox'', 3), (''bbox_source'', 0), (''bbox_confidence'', 0),
         (''is_group_of'', 0), (''is_difficult'', 0), (''is_truncated'', 0), (''mask'', 0),
         (''mask_source'', 0), (''area'', 0), (''pose'', 6), (''category_id'', 0),
         (''category_name'', 0), (''identity'', 0)]
        [SNone,
         SStr ''a'',
         SInt 0,
         SList [2, 2, 2, 2],
         SList [2, 2, 2, 2, 2, 2, 2, 2, 2],
         SList [2, 2, 2],
         SDict [(''cam_R_m2c'', 4), (''cam_t_m2c'', 5)],
         SInstance ObjectAnnotation
           [(''id'', 1), (''view_id'', 0), (''bbox'', 3), (''bbox_source'', 0),
            (''bbox_confidence'', 0), (''is_group_of'', 0), (''is_difficult'', 0),
            (''is_truncated'', 0), (''mask'', 0), (''mask_source'', 0), (''area'', 0),
            (''pose'', 6), (''category_id'', 0), (''category_name'', 0), (''identity'', 0)]]
        [(''id'', 1), (''mask'', 0)]
     = (Inr 8,
        [SNone,
         SStr ''a'',
         SInt 0,
         SList [2, 2, 2, 2],
         SList [2, 2, 2, 2, 2, 2, 2, 2, 2],
         SList [2, 2, 2],
         SDict [(''cam_R_m2c'', 4), (''cam_t_m2c'', 5)],
         SInstance ObjectAnnotation
           [(''id'', 1), (''view_id'', 0), (''bbox'', 3), (''bbox_source'', 0),
            (''bbox_confidence'', 0), (''is_group_of'', 0), (''is_difficult'', 0),
            (''is_truncated'', 0), (''mask'', 0), (''mask_source'', 0), (''area'', 0),
            (''pose'', 6), (''category_id'', 0), (''category_name'', 0), (''identity'', 0)],
         SInstance ObjectAnnotation
           [(''id'', 1), (''view_id'', 0), (''bbox'', 3), (''bbox_source'', 0),
            (''bbox_confidence'', 0), (''is_group_of'', 0), (''is_difficult'', 0),
            (''is_truncated'', 0), (''mask'', 0), (''mask_source'', 0), (''area'', 0),
            (''pose'', 6), (''category_id'', 0), (''category_name'', 0), (''identity'', 0)]])
   \<and> map (deref [SNone,
         SStr ''a'',
         SInt 0,
         SList [2, 2, 2, 2],
         SList [2, 2, 2, 2, 2, 2, 2, 2, 2],
         SList [2, 2, 2],
         SDict [(''cam_R_m2c'', 4), (''cam_t_m2c'', 5)],
         SInstance ObjectAnnotation
           [(''id'', 1), (''view_id'', 0), (''bbox'', 3), (''bbox_source'', 0),
            (''bbox_confidence'', 0), (''is_group_of'', 0), (''is_difficult'', 0),
            (''is_truncated'', 0), (''mask'', 0), (''mask_source'', 0), (''area'', 0),
            (''pose'', 6), (''category_id'', 0), (''category_name'', 0), (''identity'', 0)],
         SInstance ObjectAnnotation
           [(''id'', 1), (''view_id'', 0), (''bbox'', 3), (''bbox_source'', 0),
            (''bbox_confidence'', 0), (''is_group_of'', 0), (''is_difficult'', 0),
            (''is_truncated'', 0), (''mask'', 0), (''mask_source'', 0), (''area'', 0),
            (''pose'', 6), (''category_id'', 0), (''category_name'', 0), (''identity'', 0)]]) [3, 2, 6, 4, 5]
     = [Some (SList [2, 2, 2, 2]), Some (SInt 0), Some (SDict [(''cam_R_m2c'', 4), (''cam_t_m2c'', 5)]),
        Some (SList [2, 2, 2, 2, 2, 2, 2, 2, 2]), Some (SList [2, 2, 2])]"
proof -
  let ?st = "[SNone,
         SStr ''a'']"
  let ?d = "[(''view_id'', 0), (''bbox'', 3), (''bbox_source'', 0), (''bbox_confidence'', 0),
         (''is_group_of'', 0), (''is_difficult'', 0), (''is_truncated'', 0), (''mask'', 0),
         (''mask_source'', 0), (''area'', 0), (''pose'', 6), (''category_id'', 0),
         (''category_name'', 0), (''identity'', 0)]"
  let ?st1 = "[SNone,
         SStr ''a'',
         SInt 0,
         SList [2, 2, 2, 2],
         SList [2, 2, 2, 2, 2, 2, 2, 2, 2],
         SList [2, 2, 2],
         SDict [(''cam_R_m2c'', 4), (''cam_t_m2c'', 5)]]"
  let ?st2 = "[SNone,
         SStr ''a'',
         SInt 0,
         SList [2, 2, 2, 2],
         SList [2, 2, 2, 2, 2, 2, 2, 2, 2],
         SList [2, 2, 2],
         SDict [(''cam_R_m2c'', 4), (''cam_t_m2c'', 5)],
         SInstance ObjectAnnotation
           [(''id'', 1), (''view_id'', 0), (''bbox'', 3), (''bbox_source'', 0),
            (''bbox_confidence'', 0), (''is_group_of'', 0), (''is_difficult'', 0),
            (''is_truncated'', 0), (''mask'', 0), (''mask_source'', 0), (''area'', 0),
            (''pose'', 6), (''category_id'', 0), (''category_name'', 0), (''identity'', 0)]]"
  let ?st3 = "[SNone,
         SStr ''a'',
         SInt 0,
         SList [2, 2, 2, 2],
         SList [2, 2, 2, 2, 2, 2, 2, 2, 2],
         SList [2, 2, 2],
         SDict [(''cam_R_m2c'', 4), (''cam_t_m2c'', 5)],
         SInstance ObjectAnnotation
           [(''id'', 1), (''view_id'', 0), (''bbox'', 3), (''bbox_source'', 0),
            (''bbox_confidence'', 0), (''is_group_of'', 0), (''is_difficult'', 0),
            (''is_truncated'', 0), (''mask'', 0), (''mask_source'', 0), (''area'', 0),
            (''pose'', 6), (''category_id'', 0), (''category_name'', 0), (''identity'', 0)],
         SInstance ObjectAnnotation
           [(''id'', 1), (''view_id'', 0), (''bbox'', 3), (''bbox_source'', 0),
            (''bbox_confidence'', 0), (''is_group_of'', 0), (''is_difficult'', 0),
            (''is_truncated'', 0), (''mask'', 0), (''mask_source'', 0), (''area'', 0),
            (''pose'', 6), (''category_id'', 0), (''category_name'', 0), (''identity'', 0)]]"
  have c: "ObjectAnnotation_def ?st 0 = (?d, ?st1)"
    by (simp add: ObjectAnnotation_def_def alloc_def eval_nat_numeral)
  have n1: "ObjectAnnotation_new ?d ?st1 [(''id'', 1)] = (Inr 7, ?st2)"
    by (simp add: ObjectAnnotation_new_def ObjectAnnotation_init_def ObjectAnnotation_params_def
        bind_argument_def alloc_def)
  have n2: "ObjectAnnotation_new ?d ?st2 [(''id'', 1), (''mask'', 0)] = (Inr 8, ?st3)"
    by (simp add: ObjectAnnotation_new_def ObjectAnnotation_init_def ObjectAnnotation_params_def
        bind_argument_def alloc_def)
  from default_arguments_shared [OF c n1 n2]
  have "\<exists>d1 d2 b. deref ?st3 7 = Some (SInstance ObjectAnnotation d1)
          \<and> deref ?st3 8 = Some (SInstance ObjectAnnotation d2)
          \<and> map_of d1 ''bbox'' = Some b \<and> map_of d2 ''bbox'' = Some b"
    by auto
  moreover have "map (deref ?st3) [3, 2, 6, 4, 5]
     = [Some (SList [2, 2, 2, 2]), Some (SInt 0), Some (SDict [(''cam_R_m2c'', 4), (''cam_t_m2c'', 5)]),
        Some (SList [2, 2, 2, 2, 2, 2, 2, 2, 2]), Some (SList [2, 2, 2])]"
    by (simp add: deref_def)
  ultimately show ?thesis using c n1 n2 by simp
qed

end
